theory Spec2Isabelle
  imports
    Main
    "HOL-Library.Char_ord"
    "HOL-Library.List_Lexorder"
    "HOL-Library.AList"
begin

section \<open>Data model\<close>

text \<open>
  The repository holds two implementations of one application: \<^verbatim>\<open>src/main.py\<close> (Tkinter)
  and \<^verbatim>\<open>src/src/main.py\<close> (PyQt6). Where their code differs, the model takes the toolkit
  as a parameter or has one definition per file.
\<close>

datatype toolkit = Tk | Qt

text \<open>
  A history entry is the inner dict \<^verbatim>\<open>{'title': ..., 'timestamp': ..., 'play_count': ...}\<close>.
  Only the Tkinter program writes a title, so the field is optional. A timestamp is the string
  \<^verbatim>\<open>datetime.now().isoformat()\<close>; Python compares such strings code point by code point,
  which on \<^typ>\<open>string\<close> is the lexicographic order of \<^theory_text>\<open>List_Lexorder\<close> over
  \<^theory_text>\<open>Char_ord\<close>.

  The history is a Python dict: keys are unique and iteration follows insertion order, which
  the stable \<^verbatim>\<open>sorted\<close> of \<^verbatim>\<open>save_history\<close> observes. It is modelled as an association
  list in insertion order; \<^const>\<open>AList.update\<close> is \<^verbatim>\<open>d[k] = v\<close> (in place for a present
  key, appended for a new one) and \<^const>\<open>AList.delete\<close> is \<^verbatim>\<open>del d[k]\<close>.

  Scope: every entry has a string timestamp and an integer play count. A persisted file whose
  JSON parses but has another shape (which would raise \<^verbatim>\<open>KeyError\<close> or \<^verbatim>\<open>TypeError\<close> later)
  is outside this model.
\<close>

record entry =
  title :: "string option"
  timestamp :: string
  play_count :: int

type_synonym history = "(string \<times> entry) list"

definition dict_ok :: "history \<Rightarrow> bool" where
  "dict_ok h = distinct (map fst h)"

text \<open>
  A \<^verbatim>\<open>subprocess.Popen\<close> handle. The operating system's answers to the calls the program
  makes on it during one operation are fields of the handle, so that every answer is covered
  by a theorem that quantifies over handles.
\<close>

datatype wait_outcome = Exited | TimeoutExpired | WaitRaises string

record proc =
  cmd :: "string list"
  poll_result :: "int option"
  terminate_raises :: "string option"
  wait_result :: wait_outcome
  kill_raises :: "string option"

datatype os_call = Popen "string list" | Terminate | Wait | Kill | Poll

datatype level = INFO | WARNING | ERROR

datatype status_text = Ready | Playing_video | Playback_completed

text \<open>
  What the program reads from outside during one operation: the clock, the library calls
  whose code is not part of the repository (\<^verbatim>\<open>json.dump\<close>, \<^verbatim>\<open>json.load\<close>, and the
  \<^verbatim>\<open>urlparse\<close>-based title of \<^verbatim>\<open>get_video_title\<close>), whether opening the history file
  raises, what \<^verbatim>\<open>subprocess.Popen\<close> answers (\<open>Inl\<close> is the exception's message), and the
  user's answer to the confirmation dialog.
\<close>

record world =
  now :: string
  get_video_title :: "string \<Rightarrow> string"
  json_dump :: "history \<Rightarrow> string"
  json_load :: "string \<Rightarrow> history option"
  read_raises :: "string option"
  write_raises :: "string option"
  popen :: "string list \<Rightarrow> string + proc"
  askyesno :: bool

text \<open>
  The application object \<^verbatim>\<open>self\<close>, together with the effects it has had on the outside:
  the files on disk (path to text), the calls made on processes, the log and the dialogs shown.
\<close>

record app =
  app_dir :: string
  mpv_path :: string
  max_history :: int
  process :: "proc option"
  history :: history
  url_var :: string
  fullscreen_var :: bool
  loop_var :: bool
  history_combo :: "string list"
  is_playing :: bool
  status :: status_text
  log :: "(level \<times> string) list"
  dialogs :: "(string \<times> string) list"
  disk :: "string \<rightharpoonup> string"
  os_calls :: "os_call list"

section \<open>History store\<close>

definition history_path :: "string \<Rightarrow> string" where
  "history_path dir = dir @ ''/history.json''"


text \<open>
  The eviction of \<^verbatim>\<open>save_history\<close>:
  \<^verbatim>\<open>sorted(self.history.keys(), key=lambda x: self.history[x]['timestamp'])[:len(self.history) - self.max_history]\<close>.
  \<^const>\<open>sort_key\<close> is stable, as \<^verbatim>\<open>sorted\<close> is. The slice bound is positive where the code
  takes the slice, so \<^const>\<open>take\<close> is the slice; a bound beyond the length gives the whole list
  in both. The key function is applied to keys of the dict only, so its lookup
  \<^verbatim>\<open>self.history[x]\<close> always finds an entry.
\<close>

definition keys_to_remove :: "int \<Rightarrow> history \<Rightarrow> string list" where
  "keys_to_remove mx h =
     take (nat (int (length h) - mx))
          (sort_key (\<lambda>x. timestamp (the (map_of h x))) (map fst h))"

definition evict_oldest :: "int \<Rightarrow> history \<Rightarrow> history" where
  "evict_oldest mx h =
     (if int (length h) > mx then fold AList.delete (keys_to_remove mx h) h else h)"

text \<open>
  \<^verbatim>\<open>save_history\<close>: the same code in both files. The first component is the exception the call
  ends with, if any; the eviction has happened by then.
\<close>

definition save_history :: "world \<Rightarrow> app \<Rightarrow> string option \<times> app" where
  "save_history w a =
     (let a1 = a\<lparr>history := evict_oldest (max_history a) (history a)\<rparr> in
      case write_raises w of
        Some e \<Rightarrow> (Some e, a1)
      | None \<Rightarrow>
          (None, a1\<lparr>disk := (disk a1)(history_path (app_dir a1) \<mapsto> json_dump w (history a1))\<rparr>))"

text \<open>The \<^verbatim>\<open>if url not in self.history: ... else: ...\<close> of \<^verbatim>\<open>add_to_history\<close>.\<close>

definition new_entry :: "toolkit \<Rightarrow> world \<Rightarrow> string \<Rightarrow> entry" where
  "new_entry tk w url =
     \<lparr>title = (case tk of Tk \<Rightarrow> Some (get_video_title w url) | Qt \<Rightarrow> None),
      timestamp = now w, play_count = 1\<rparr>"

definition written_entry :: "toolkit \<Rightarrow> world \<Rightarrow> string \<Rightarrow> history \<Rightarrow> entry" where
  "written_entry tk w url h =
     (case map_of h url of
        None \<Rightarrow> new_entry tk w url
      | Some e \<Rightarrow> e\<lparr>play_count := play_count e + 1, timestamp := now w\<rparr>)"

definition record_play :: "toolkit \<Rightarrow> world \<Rightarrow> string \<Rightarrow> history \<Rightarrow> history" where
  "record_play tk w url h = AList.update url (written_entry tk w url h) h"

definition combo_values :: "toolkit \<Rightarrow> history \<Rightarrow> string list" where
  "combo_values tk h =
     (case tk of Tk \<Rightarrow> map fst h | Qt \<Rightarrow> ''Recently played videos...'' # map fst h)"

definition add_to_history :: "toolkit \<Rightarrow> world \<Rightarrow> string \<Rightarrow> app \<Rightarrow> string option \<times> app" where
  "add_to_history tk w url a =
     (case save_history w (a\<lparr>history := record_play tk w url (history a)\<rparr>) of
        (Some e, a1) \<Rightarrow> (Some e, a1)
      | (None, a1) \<Rightarrow> (None, a1\<lparr>history_combo := combo_values tk (history a1)\<rparr>))"



section \<open>URL validator\<close>

text \<open>
  \<^verbatim>\<open>validate_url\<close> is \<^verbatim>\<open>any(re.match(pattern, url) for pattern in patterns)\<close>. The five
  patterns use literal characters, the classes \<^verbatim>\<open>[\w-]\<close> and \<^verbatim>\<open>\S\<close>, groups, \<^verbatim>\<open>?\<close>,
  \<^verbatim>\<open>+\<close> and \<^verbatim>\<open>*\<close>: regular expressions in the strict sense, for which \<^verbatim>\<open>re.match\<close>
  succeeds exactly when some prefix of the string belongs to the pattern's language. The model
  decides that with Brzozowski derivatives. The leading \<^verbatim>\<open>^\<close> holds at the position where
  \<^verbatim>\<open>re.match\<close> starts and is left out.

  Scope: strings are ASCII. On ASCII, \<^verbatim>\<open>\w\<close> is \<^verbatim>\<open>[a-zA-Z0-9_]\<close> and whitespace (for
  \<^verbatim>\<open>\S\<close> and \<^verbatim>\<open>str.strip\<close>) is the characters 9 to 13, 28 to 31 and 32; beyond ASCII both
  follow the Unicode database, which is not modelled.
\<close>

datatype regex =
    Zero
  | Eps
  | Sym "char \<Rightarrow> bool"
  | Seq regex regex
  | Alt regex regex
  | Star regex

fun Lit :: "string \<Rightarrow> regex" where
  "Lit [] = Eps"
| "Lit (c # cs) = Seq (Sym ((=) c)) (Lit cs)"

definition Optional :: "regex \<Rightarrow> regex" where
  "Optional r = Alt r Eps"

definition OneOrMore :: "regex \<Rightarrow> regex" where
  "OneOrMore r = Seq r (Star r)"

fun nullable :: "regex \<Rightarrow> bool" where
  "nullable Zero = False"
| "nullable Eps = True"
| "nullable (Sym p) = False"
| "nullable (Seq r s) = (nullable r \<and> nullable s)"
| "nullable (Alt r s) = (nullable r \<or> nullable s)"
| "nullable (Star r) = True"

fun deriv :: "char \<Rightarrow> regex \<Rightarrow> regex" where
  "deriv c Zero = Zero"
| "deriv c Eps = Zero"
| "deriv c (Sym p) = (if p c then Eps else Zero)"
| "deriv c (Seq r s) =
     (if nullable r then Alt (Seq (deriv c r) s) (deriv c s) else Seq (deriv c r) s)"
| "deriv c (Alt r s) = Alt (deriv c r) (deriv c s)"
| "deriv c (Star r) = Seq (deriv c r) (Star r)"

fun re_match :: "regex \<Rightarrow> string \<Rightarrow> bool" where
  "re_match r [] = nullable r"
| "re_match r (c # cs) = (nullable r \<or> re_match (deriv c r) cs)"

definition is_space :: "char \<Rightarrow> bool" where
  "is_space c \<longleftrightarrow>
     c \<in> {CHR 0x09, CHR 0x0A, CHR 0x0B, CHR 0x0C, CHR 0x0D,
          CHR 0x1C, CHR 0x1D, CHR 0x1E, CHR 0x1F, CHR '' ''}"

definition is_word :: "char \<Rightarrow> bool" where
  "is_word c \<longleftrightarrow>
     c \<in> set ''abcdefghijklmnopqrstuvwxyzABCDEFGHIJKLMNOPQRSTUVWXYZ0123456789_''"

text \<open>The classes \<^verbatim>\<open>[\w-]\<close> and \<^verbatim>\<open>\S\<close>.\<close>

definition word_or_dash :: "char \<Rightarrow> bool" where
  "word_or_dash c \<longleftrightarrow> is_word c \<or> c = CHR ''-''"

definition non_space :: "char \<Rightarrow> bool" where
  "non_space c \<longleftrightarrow> \<not> is_space c"

text \<open>
  The groups the five patterns share: \<^verbatim>\<open>(https?://)?\<close>, \<^verbatim>\<open>(www\.)?\<close>, \<^verbatim>\<open>[\w-]+\<close>, and the
  tails \<^verbatim>\<open>(&\S*)?\<close> and \<^verbatim>\<open>(\?\S*)?\<close>.
\<close>

definition scheme :: regex where
  "scheme = Optional (Seq (Lit ''http'') (Seq (Optional (Lit ''s'')) (Lit ''://'')))"

definition www :: regex where
  "www = Optional (Lit ''www.'')"

definition ident :: regex where
  "ident = OneOrMore (Sym word_or_dash)"

definition tail :: "char \<Rightarrow> regex" where
  "tail sep = Optional (Seq (Sym ((=) sep)) (Star (Sym non_space)))"

text \<open>\<^verbatim>\<open>patterns\<close> of \<^verbatim>\<open>validate_url\<close> in \<^verbatim>\<open>src/main.py\<close>.\<close>

definition patterns :: "regex list" where
  "patterns =
     [Seq scheme (Seq www (Seq (Lit ''youtube.com/watch?v='') (Seq ident (tail CHR ''&'')))),
      Seq scheme (Seq www (Seq (Lit ''youtu.be/'') (Seq ident (tail CHR ''?'')))),
      Seq scheme (Seq www (Seq (Lit ''youtube.com/shorts/'') (Seq ident (tail CHR ''?'')))),
      Seq scheme (Seq www (Seq (Lit ''youtube.com/playlist?list='') (Seq ident (tail CHR ''&'')))),
      Seq scheme (Seq www (Seq (Lit ''youtube.com/live/'') (Seq ident (tail CHR ''?''))))]"

definition validate_url :: "string \<Rightarrow> bool" where
  "validate_url url = list_ex (\<lambda>pattern. re_match pattern url) patterns"

text \<open>\<^verbatim>\<open>patterns\<close> of \<^verbatim>\<open>validate_url\<close> in \<^verbatim>\<open>src/src/main.py\<close>.\<close>

definition patterns_qt :: "regex list" where
  "patterns_qt =
     [Seq scheme (Seq www (Seq (Lit ''youtube.com/watch?v='') (Seq ident (tail CHR ''&'')))),
      Seq scheme (Seq www (Seq (Lit ''youtu.be/'') (Seq ident (tail CHR ''?'')))),
      Seq scheme (Seq www (Seq (Lit ''youtube.com/shorts/'') (Seq ident (tail CHR ''?'')))),
      Seq scheme (Seq www (Seq (Lit ''youtube.com/playlist?list='') (Seq ident (tail CHR ''&'')))),
      Seq scheme (Seq www (Seq (Lit ''youtube.com/live/'') (Seq ident (tail CHR ''?''))))]"

definition validate_url_qt :: "string \<Rightarrow> bool" where
  "validate_url_qt url = list_ex (\<lambda>pattern. re_match pattern url) patterns_qt"

subsection \<open>The language of a pattern\<close>



subsection \<open>The accepted link shapes, as the specification words them\<close>







section \<open>Process controller\<close>


definition update_ui_state :: "bool \<Rightarrow> app \<Rightarrow> app" where
  "update_ui_state playing a = a\<lparr>is_playing := playing\<rparr>"

text \<open>
  \<^verbatim>\<open>stop_video\<close> of \<^verbatim>\<open>src/main.py\<close>: \<^verbatim>\<open>terminate()\<close> and \<^verbatim>\<open>self.process = None\<close> inside the
  \<^verbatim>\<open>try\<close>, the interface reset after it.
\<close>

definition stop_video_tk :: "app \<Rightarrow> app" where
  "stop_video_tk a =
     (let a1 =
        (case process a of
           None \<Rightarrow> a
         | Some p \<Rightarrow>
             (let a2 = a\<lparr>log := log a @ [(INFO, ''Stopping video playback'')],
                          os_calls := os_calls a @ [Terminate]\<rparr> in
              case terminate_raises p of
                Some e \<Rightarrow> a2\<lparr>log := log a2 @ [(ERROR, ''Error stopping video: '' @ e)]\<rparr>
              | None \<Rightarrow> a2\<lparr>process := None\<rparr>))
      in (update_ui_state False a1)\<lparr>status := Ready\<rparr>)"

text \<open>
  \<^verbatim>\<open>stop_video\<close> of \<^verbatim>\<open>src/src/main.py\<close>: after \<^verbatim>\<open>terminate()\<close> it waits five seconds and kills
  the process on \<^verbatim>\<open>TimeoutExpired\<close>; any other exception leaves the \<^verbatim>\<open>try\<close> before
  \<^verbatim>\<open>self.process = None\<close>.
\<close>

definition stop_video_qt :: "app \<Rightarrow> app" where
  "stop_video_qt a =
     (let a1 =
        (case process a of
           None \<Rightarrow> a
         | Some p \<Rightarrow>
             (let a2 = a\<lparr>log := log a @ [(INFO, ''Stopping video playback'')],
                          os_calls := os_calls a @ [Terminate]\<rparr> in
              case terminate_raises p of
                Some e \<Rightarrow> a2\<lparr>log := log a2 @ [(ERROR, ''Error stopping video: '' @ e)]\<rparr>
              | None \<Rightarrow>
                  (let a3 = a2\<lparr>os_calls := os_calls a2 @ [Wait]\<rparr> in
                   case wait_result p of
                     Exited \<Rightarrow> a3\<lparr>process := None\<rparr>
                   | WaitRaises e \<Rightarrow>
                       a3\<lparr>log := log a3 @ [(ERROR, ''Error stopping video: '' @ e)]\<rparr>
                   | TimeoutExpired \<Rightarrow>
                       (let a4 = a3\<lparr>os_calls := os_calls a3 @ [Kill]\<rparr> in
                        case kill_raises p of
                          Some e \<Rightarrow>
                            a4\<lparr>log := log a4 @ [(ERROR, ''Error stopping video: '' @ e)]\<rparr>
                        | None \<Rightarrow> a4\<lparr>process := None\<rparr>))))
      in (update_ui_state False a1)\<lparr>status := Ready\<rparr>)"

definition stop_video :: "toolkit \<Rightarrow> app \<Rightarrow> app" where
  "stop_video tk a = (case tk of Tk \<Rightarrow> stop_video_tk a | Qt \<Rightarrow> stop_video_qt a)"

text \<open>
  \<^verbatim>\<open>check_video_status\<close>, run by a one-second timer in both files; they differ in the status
  text only.
\<close>

definition check_video_status :: "toolkit \<Rightarrow> app \<Rightarrow> app" where
  "check_video_status tk a =
     (case process a of
        None \<Rightarrow> a
      | Some p \<Rightarrow>
          (let a1 = a\<lparr>os_calls := os_calls a @ [Poll]\<rparr> in
           case poll_result p of
             None \<Rightarrow> a1
           | Some rc \<Rightarrow>
               (update_ui_state False
                  (a1\<lparr>log := log a1 @ [(INFO, ''Video playback completed'')], process := None\<rparr>))
               \<lparr>status := (case tk of Tk \<Rightarrow> Ready | Qt \<Rightarrow> Playback_completed)\<rparr>))"




section \<open>Concrete states for the examples\<close>

text \<open>
  A store of three entries and a JSON text that \<^verbatim>\<open>json.load\<close> reads as that store.
\<close>

definition three_entries :: history where
  "three_entries =
     [(''youtu.be/a'', \<lparr>title = None, timestamp = ''2024-05-01T09:00:00'', play_count = 1\<rparr>),
      (''youtu.be/b'', \<lparr>title = None, timestamp = ''2024-05-01T09:10:00'', play_count = 2\<rparr>),
      (''youtu.be/c'', \<lparr>title = None, timestamp = ''2024-05-01T09:20:00'', play_count = 1\<rparr>)]"

definition three_entries_json :: string where
  \<open>three_entries_json =
     ''{"youtu.be/a": {"timestamp": "2024-05-01T09:00:00", "play_count": 1}, '' @
     ''"youtu.be/b": {"timestamp": "2024-05-01T09:10:00", "play_count": 2}, '' @
     ''"youtu.be/c": {"timestamp": "2024-05-01T09:20:00", "play_count": 1}}''\<close>

text \<open>
  A world in which the clock reads one fixed time, the history file can be read and written,
  and the JSON library is cut down to the two documents the examples need (the line breaks
  and indentation of \<^verbatim>\<open>indent=2\<close> are not reproduced).
\<close>

definition example_world :: world where
  "example_world =
     \<lparr>now = ''2024-05-01T10:00:00'',
      get_video_title = (\<lambda>url. url),
      json_dump = (\<lambda>h. if h = [] then ''{}''
                         else if h = three_entries then three_entries_json else ''?''),
      json_load = (\<lambda>txt. if txt = ''{}'' then Some []
                           else if txt = three_entries_json then Some three_entries else None),
      read_raises = None,
      write_raises = None,
      popen = (\<lambda>c. Inr \<lparr>cmd = c, poll_result = None, terminate_raises = None,
                             wait_result = Exited, kill_raises = None\<rparr>),
      askyesno = True\<rparr>"

definition example_app :: app where
  "example_app =
     \<lparr>app_dir = ''/opt/player'', mpv_path = ''/opt/player/tools/mpv.exe'', max_history = 10,
      process = None, history = [], url_var = [], fullscreen_var = True, loop_var = False,
      history_combo = [], is_playing = False, status = Ready, log = [], dialogs = [],
      disk = Map.empty, os_calls = []\<rparr>"



text \<open>
  A player process that is running, and one on which \<^verbatim>\<open>terminate()\<close> raises (on Windows,
  \<^verbatim>\<open>TerminateProcess\<close> refused while the process is still active).
\<close>

definition running_proc :: proc where
  "running_proc =
     \<lparr>cmd = [''/opt/player/tools/mpv.exe'', ''--really-quiet'', ''youtu.be/a''],
      poll_result = None, terminate_raises = None, wait_result = Exited, kill_raises = None\<rparr>"

definition stuck_proc :: proc where
  "stuck_proc = running_proc\<lparr>terminate_raises := Some ''[WinError 5] Access is denied''\<rparr>"

section \<open>Properties of the history store\<close>

subsection \<open>Dictionary and eviction lemmas\<close>


lemma add_to_history_history:
  "history (snd (add_to_history tk w url a)) =
     evict_oldest (max_history a) (record_play tk w url (history a))"
  by (simp add: add_to_history_def save_history_def Let_def split: option.split)

lemma add_to_history_max: "max_history (snd (add_to_history tk w url a)) = max_history a"
  by (simp add: add_to_history_def save_history_def Let_def split: option.split)



lemma fold_delete: "fold AList.delete ks h = filter (\<lambda>p. fst p \<notin> set ks) h"
proof (induction ks arbitrary: h)
  case Nil
  then show ?case by simp
next
  case (Cons k ks)
  have "AList.delete k h = filter (\<lambda>p. fst p \<noteq> k) h"
    by (simp add: AList.delete_eq case_prod_beta' eq_commute)
  then show ?case
    using Cons.IH [of "AList.delete k h"] by (simp add: conj_commute)
qed






lemma dict_ok_evict_oldest: "dict_ok h \<Longrightarrow> dict_ok (evict_oldest mx h)"
  by (simp add: evict_oldest_def fold_delete dict_ok_def distinct_map_filter)









subsection \<open>Eviction of the oldest of three\<close>

text \<open>
  C1. With \<open>max_history = 2\<close> and an empty store, recording three pairwise distinct URLs
  \<open>u1\<close>, \<open>u2\<close>, \<open>u3\<close> at times that do not decrease leaves exactly the entries of
  \<open>u2\<close> and \<open>u3\<close>, each as it was first written: the third call evicts \<open>u1\<close>.
\<close>

theorem three_urls_keep_last_two:
  assumes diff: "u1 \<noteq> u2" "u1 \<noteq> u3" "u2 \<noteq> u3"
    and clock: "now w1 \<le> now w2" "now w2 \<le> now w3"
    and start: "history a = []" "max_history a = 2"
  shows "history (snd (add_to_history tk w3 u3
           (snd (add_to_history tk w2 u2 (snd (add_to_history tk w1 u1 a)))))) =
         [(u2, new_entry tk w2 u2), (u3, new_entry tk w3 u3)]"
proof -
  define a1 where "a1 = snd (add_to_history tk w1 u1 a)"
  define a2 where "a2 = snd (add_to_history tk w2 u2 a1)"
  have h1: "history a1 = [(u1, new_entry tk w1 u1)]"
    using start
    by (simp add: a1_def add_to_history_history record_play_def written_entry_def evict_oldest_def)
  have m1: "max_history a1 = 2"
    using start by (simp add: a1_def add_to_history_max)
  have h2: "history a2 = [(u1, new_entry tk w1 u1), (u2, new_entry tk w2 u2)]"
    using diff h1 m1
    by (simp add: a2_def add_to_history_history record_play_def written_entry_def evict_oldest_def)
  have m2: "max_history a2 = 2"
    using m1 by (simp add: a2_def add_to_history_max)
  have full: "record_play tk w3 u3 (history a2) =
      [(u1, new_entry tk w1 u1), (u2, new_entry tk w2 u2), (u3, new_entry tk w3 u3)]"
    using diff h2 by (simp add: record_play_def written_entry_def)
  have "keys_to_remove 2 (record_play tk w3 u3 (history a2)) = [u1]"
    using diff clock by (simp add: full keys_to_remove_def new_entry_def)
  then have "evict_oldest 2 (record_play tk w3 u3 (history a2)) =
      [(u2, new_entry tk w2 u2), (u3, new_entry tk w3 u3)]"
    using diff by (simp add: evict_oldest_def full)
  then show ?thesis
    using m2 by (simp add: add_to_history_history a1_def a2_def)
qed

theorem three_urls_keep_last_two_witness:
  "map fst (history (snd (add_to_history Tk (example_world\<lparr>now := ''2024-05-01T10:02:00''\<rparr>) ''youtu.be/c''
      (snd (add_to_history Tk (example_world\<lparr>now := ''2024-05-01T10:01:00''\<rparr>) ''youtu.be/b''
        (snd (add_to_history Tk example_world ''youtu.be/a''
          (example_app\<lparr>max_history := 2\<rparr>)))))))) =
   [''youtu.be/b'', ''youtu.be/c'']"
  using three_urls_keep_last_two [of "''youtu.be/a''" "''youtu.be/b''" "''youtu.be/c''"
      example_world "example_world\<lparr>now := ''2024-05-01T10:01:00''\<rparr>"
      "example_world\<lparr>now := ''2024-05-01T10:02:00''\<rparr>"
      "example_app\<lparr>max_history := 2\<rparr>" Tk]
  by (simp add: example_world_def example_app_def)





subsection \<open>The size bound\<close>




subsection \<open>The entry just recorded and the eviction of the same call\<close>




subsection \<open>What a record call writes\<close>




subsection \<open>Saving and loading\<close>



section \<open>Properties of the process controller\<close>




subsection \<open>The liveness poll\<close>

text \<open>
  C7. When the tracked process has exited, the poll clears the handle and resets the
  interface; when it is still running the handle stays; with no process tracked nothing
  changes. In each case the only call made on the process is \<^verbatim>\<open>poll()\<close>: the poll never
  terminates or kills it.
\<close>

theorem poll_clears_exited_process_only:
  "(process a = Some p \<and> poll_result p = Some rc \<longrightarrow>
      process (check_video_status tk a) = None
      \<and> \<not> is_playing (check_video_status tk a)
      \<and> os_calls (check_video_status tk a) = os_calls a @ [Poll])
   \<and> (process a = Some p \<and> poll_result p = None \<longrightarrow>
      process (check_video_status tk a) = Some p
      \<and> os_calls (check_video_status tk a) = os_calls a @ [Poll])
   \<and> (process a = None \<longrightarrow> check_video_status tk a = a)"
  by (simp add: check_video_status_def update_ui_state_def Let_def)

theorem poll_clears_exited_process_only_witness:
  "process (check_video_status Tk
      (example_app\<lparr>process := Some (running_proc\<lparr>poll_result := Some 0\<rparr>)\<rparr>)) = None
   \<and> os_calls (check_video_status Tk
      (example_app\<lparr>process := Some (running_proc\<lparr>poll_result := Some 0\<rparr>)\<rparr>)) = [Poll]
   \<and> process (check_video_status Qt (example_app\<lparr>process := Some running_proc\<rparr>)) =
      Some running_proc
   \<and> check_video_status Qt example_app = example_app"
  using poll_clears_exited_process_only
      [of "example_app\<lparr>process := Some (running_proc\<lparr>poll_result := Some 0\<rparr>)\<rparr>"
        "running_proc\<lparr>poll_result := Some 0\<rparr>" 0 Tk]
    poll_clears_exited_process_only
      [of "example_app\<lparr>process := Some running_proc\<rparr>" running_proc _ Qt]
    poll_clears_exited_process_only [of example_app _ _ Qt]
  by (simp add: example_app_def running_proc_def)

subsection \<open>Rejected input\<close>



subsection \<open>Stopping\<close>

text \<open>
  What \<^verbatim>\<open>stop_video\<close> does to the handle: it is cleared when \<^verbatim>\<open>terminate()\<close> returns (and,
  in the PyQt6 file, the wait returns or the kill after the timeout does), and kept when
  \<^verbatim>\<open>terminate()\<close> raises; the interface is reset either way.
\<close>

lemma stop_video_clears_handle:
  "(process a = Some p \<and> terminate_raises p = None \<longrightarrow> process (stop_video Tk a) = None)
   \<and> (process a = Some p \<and> terminate_raises p = None
        \<and> (wait_result p = Exited \<or> wait_result p = TimeoutExpired \<and> kill_raises p = None)
      \<longrightarrow> process (stop_video Qt a) = None)
   \<and> (process a = Some p \<and> terminate_raises p \<noteq> None \<longrightarrow> process (stop_video tk a) = Some p)
   \<and> \<not> is_playing (stop_video tk a) \<and> status (stop_video tk a) = Ready"
  by (cases tk)
    (auto simp: stop_video_def stop_video_tk_def stop_video_qt_def update_ui_state_def Let_def
      split: option.splits wait_outcome.splits)

text \<open>
  C5 does not hold of the code. When \<^verbatim>\<open>terminate()\<close> raises, both files log the error and
  reset the interface, but \<^verbatim>\<open>self.process = None\<close> is skipped: the handle stays tracked.
  The Tkinter file moreover makes no call but \<^verbatim>\<open>terminate()\<close>: it neither waits nor kills,
  which the PyQt6 file does.
\<close>

theorem stop_keeps_handle_when_terminate_raises:
  "process (stop_video Tk (example_app\<lparr>process := Some stuck_proc, is_playing := True\<rparr>)) =
     Some stuck_proc
   \<and> process (stop_video Qt (example_app\<lparr>process := Some stuck_proc, is_playing := True\<rparr>)) =
     Some stuck_proc
   \<and> is_playing (stop_video Tk (example_app\<lparr>process := Some stuck_proc, is_playing := True\<rparr>))
     = False
   \<and> log (stop_video Tk (example_app\<lparr>process := Some stuck_proc, is_playing := True\<rparr>)) =
     [(INFO, ''Stopping video playback''),
      (ERROR, ''Error stopping video: [WinError 5] Access is denied'')]
   \<and> os_calls (stop_video Tk (example_app\<lparr>process := Some running_proc\<rparr>)) = [Terminate]
   \<and> os_calls (stop_video Qt
        (example_app\<lparr>process := Some (running_proc\<lparr>wait_result := TimeoutExpired\<rparr>)\<rparr>)) =
     [Terminate, Wait, Kill]"
  by (simp add: stop_video_def stop_video_tk_def stop_video_qt_def update_ui_state_def
      example_app_def stuck_proc_def running_proc_def Let_def)

section \<open>Properties of the validator\<close>

text \<open>
  C9. The validators of the two files return the same answer on every string.
\<close>

theorem validate_url_same_in_both_files: "validate_url url = validate_url_qt url"
  by (simp add: validate_url_def validate_url_qt_def patterns_def patterns_qt_def)

subsection \<open>The matcher decides the prefix language\<close>
















subsection \<open>Validity is a prefix of an accepted shape\<close>





lemma v_not_first_rejected: "\<not> validate_url ''https://www.youtube.com/watch?list=PL1&v=abc123''"
  by code_simp



end
